theory Spec2Isabelle
  imports Complex_Main "HOL-Library.Word" "HOL-Library.Char_ord" "HOL-Library.List_Lexorder"
begin

section \<open>Go base types\<close>

text \<open>
  A Go \<open>float64\<close> is a finite value, an infinity or NaN. Every finite \<open>float64\<close> is a
  real number, and the comparison of two finite values is the comparison of the reals;
  a comparison with NaN is false. The model reads finite values as reals (a superset of
  the representable ones), which is all the program needs: it only compares a
  \<open>float64\<close> with integer constants and prints it.
\<close>

datatype float64 = Finite real | PosInf | NegInf | NaN

fun float64_less :: "float64 \<Rightarrow> float64 \<Rightarrow> bool" where
  "float64_less NaN _ = False"
| "float64_less _ NaN = False"
| "float64_less (Finite a) (Finite b) = (a < b)"
| "float64_less (Finite a) PosInf = True"
| "float64_less (Finite a) NegInf = False"
| "float64_less PosInf _ = False"
| "float64_less NegInf NegInf = False"
| "float64_less NegInf _ = True"

definition float64_greater :: "float64 \<Rightarrow> float64 \<Rightarrow> bool" where
  "float64_greater a b = float64_less b a"

type_synonym int64 = "64 word"

text \<open>A Go \<open>error\<close> value is modelled by its message; \<open>nil\<close> is \<open>None\<close>.\<close>

type_synonym error = string

section \<open>The forecast data model\<close>

record DataPoint =
  Time :: int64
  Summary :: string
  Icon :: string
  SunriseTime :: int64
  SunsetTime :: int64
  PrecipIntensity :: float64
  PrecipIntensityMax :: float64
  PrecipIntensityMaxTime :: int64
  PrecipProbability :: float64
  PrecipType :: string
  PrecipAccumulation :: float64
  Temperature :: float64
  TemperatureMin :: float64
  TemperatureMinTime :: int64
  TemperatureMax :: float64
  TemperatureMaxTime :: int64
  ApparentTemperature :: float64
  DewPoint :: float64
  WindSpeed :: float64
  WindBearing :: float64
  CloudCover :: float64
  Humidity :: float64
  Pressure :: float64
  Visibility :: float64
  Ozone :: float64
  MoonPhase :: float64

text \<open>
  \<open>WindDirection\<close> starts from the empty string and runs four independent tests in the
  order N, S, E, W; each test that holds appends its letter.
\<close>

definition WindDirection :: "DataPoint \<Rightarrow> string" where
  "WindDirection dp =
     (let direction = [];
          direction =
            (if float64_greater (WindBearing dp) (Finite 293) \<or> float64_less (WindBearing dp) (Finite 67)
             then direction @ ''N'' else direction);
          direction =
            (if float64_less (WindBearing dp) (Finite 247) \<and> float64_greater (WindBearing dp) (Finite 113)
             then direction @ ''S'' else direction);
          direction =
            (if float64_greater (WindBearing dp) (Finite 22) \<and> float64_less (WindBearing dp) (Finite 157)
             then direction @ ''E'' else direction);
          direction =
            (if float64_less (WindBearing dp) (Finite 337) \<and> float64_greater (WindBearing dp) (Finite 203)
             then direction @ ''W'' else direction)
      in direction)"

record DataBlock =
  Summary :: string
  Icon :: string
  Data :: "DataPoint list"

record Alert =
  Title :: string
  Description :: string
  Expires :: int64
  URI :: string

record Flags =
  DarkSkyUnavailable :: string
  DarkSkyStations :: "string list"
  DataPointStations :: "string list"
  ISDStations :: "string list"
  LAMPStations :: "string list"
  METARStations :: "string list"
  METNOLicense :: string
  Sources :: "string list"
  Units :: string

record Forecast =
  Latitude :: float64
  Longitude :: float64
  Timezone :: string
  Offset :: int
  Currently :: DataPoint
  Minutely :: DataBlock
  Hourly :: DataBlock
  Daily :: DataBlock
  Alerts :: "Alert list"
  Flags :: Flags

text \<open>The zero values of the structs: what \<open>var f Forecast\<close> and \<open>ForecastResponse{}\<close> hold.\<close>

definition zero_DataPoint :: DataPoint where
  "zero_DataPoint =
     \<lparr>Time = 0, Summary = [], Icon = [], SunriseTime = 0, SunsetTime = 0,
      PrecipIntensity = Finite 0, PrecipIntensityMax = Finite 0, PrecipIntensityMaxTime = 0,
      PrecipProbability = Finite 0, PrecipType = [], PrecipAccumulation = Finite 0,
      Temperature = Finite 0, TemperatureMin = Finite 0, TemperatureMinTime = 0,
      TemperatureMax = Finite 0, TemperatureMaxTime = 0, ApparentTemperature = Finite 0,
      DewPoint = Finite 0, WindSpeed = Finite 0, WindBearing = Finite 0, CloudCover = Finite 0,
      Humidity = Finite 0, Pressure = Finite 0, Visibility = Finite 0, Ozone = Finite 0,
      MoonPhase = Finite 0\<rparr>"

definition zero_DataBlock :: DataBlock where
  "zero_DataBlock = \<lparr>Summary = [], Icon = [], Data = []\<rparr>"

definition zero_Flags :: Flags where
  "zero_Flags =
     \<lparr>DarkSkyUnavailable = [], DarkSkyStations = [], DataPointStations = [], ISDStations = [],
      LAMPStations = [], METARStations = [], METNOLicense = [], Sources = [], Units = []\<rparr>"

definition zero_Forecast :: Forecast where
  "zero_Forecast =
     \<lparr>Latitude = Finite 0, Longitude = Finite 0, Timezone = [], Offset = 0,
      Currently = zero_DataPoint, Minutely = zero_DataBlock, Hourly = zero_DataBlock,
      Daily = zero_DataBlock, Alerts = [], Flags = zero_Flags\<rparr>"

section \<open>The fragment of \<open>net/url\<close> and \<open>strconv\<close> that the request builder calls\<close>

text \<open>
  The library is not part of the repository. What \<open>URL()\<close> does with a parsed URL is
  modelled here: adding query values, encoding them, and assembling the string. Parsing
  itself (\<open>url.Parse\<close>, and \<open>url.ParseQuery\<close> on a non-empty query) is a parameter of the
  model, see \<open>env\<close> below.
\<close>

datatype encoding = encodePath | encodeHost | encodeUserPassword | encodeQueryComponent | encodeFragment

definition isAlnum :: "char \<Rightarrow> bool" where
  "isAlnum c = (c \<in> set ''abcdefghijklmnopqrstuvwxyzABCDEFGHIJKLMNOPQRSTUVWXYZ0123456789'')"

text \<open>
  \<open>shouldEscape\<close>: letters and digits are never escaped; a host keeps the sub-delimiters
  and \<open>: [ ] < > "\<close>; the marks \<open>- _ . ~\<close> are never escaped; of the reserved
  characters \<open>$ & + , / : ; = ? @\<close> a path escapes only \<open>?\<close>, user information escapes
  \<open>@ / ? :\<close>, a query component escapes all and a fragment none; every other byte is
  escaped.
\<close>

definition shouldEscape :: "char \<Rightarrow> encoding \<Rightarrow> bool" where
  "shouldEscape c mode =
     (if isAlnum c then False
      else if mode = encodeHost \<and> (c \<in> set ''!$&()*+,;=:[]<>'' \<or> c = CHR 0x27 \<or> c = CHR 0x22) then False
      else if c \<in> set ''-_.~'' then False
      else if c \<in> set ''$&+,/:;=?@'' then
        (case mode of
           encodePath \<Rightarrow> c = CHR ''?''
         | encodeUserPassword \<Rightarrow> c = CHR ''@'' \<or> c = CHR ''/'' \<or> c = CHR ''?'' \<or> c = CHR '':''
         | encodeQueryComponent \<Rightarrow> True
         | encodeFragment \<Rightarrow> False
         | encodeHost \<Rightarrow> True)
      else True)"

definition upperhex :: "nat \<Rightarrow> char" where
  "upperhex n = ''0123456789ABCDEF'' ! n"

definition escape_byte :: "encoding \<Rightarrow> char \<Rightarrow> string" where
  "escape_byte mode c =
     (if c = CHR '' '' \<and> mode = encodeQueryComponent then ''+''
      else if shouldEscape c mode
        then [CHR ''%'', upperhex (of_char c div 16), upperhex (of_char c mod 16)]
      else [c])"

definition escape :: "string \<Rightarrow> encoding \<Rightarrow> string" where
  "escape s mode = concat (map (escape_byte mode) s)"

definition QueryEscape :: "string \<Rightarrow> string" where
  "QueryEscape s = escape s encodeQueryComponent"

text \<open>
  \<open>url.Values\<close> is a \<open>map[string][]string\<close>: here an association list with one entry
  per key. \<open>Add\<close> appends the value to the key's list. \<open>Encode\<close> walks the keys in
  sorted order and writes \<open>key=value\<close> for every value, pairs separated by \<open>&\<close>.
\<close>

type_synonym Values = "(string \<times> string list) list"

definition Values_lookup :: "Values \<Rightarrow> string \<Rightarrow> string list" where
  "Values_lookup v key = (case map_of v key of None \<Rightarrow> [] | Some vs \<Rightarrow> vs)"

definition Values_Add :: "Values \<Rightarrow> string \<Rightarrow> string \<Rightarrow> Values" where
  "Values_Add v key val =
     (if key \<in> fst ` set v
      then map (\<lambda>(k, vs). if k = key then (k, vs @ [val]) else (k, vs)) v
      else v @ [(key, [val])])"

definition Encode_pair :: "string \<Rightarrow> string \<Rightarrow> string \<Rightarrow> string" where
  "Encode_pair keyEscaped val buf =
     (if buf \<noteq> [] then buf @ ''&'' else buf) @ keyEscaped @ ''='' @ QueryEscape val"

definition Values_Encode :: "Values \<Rightarrow> string" where
  "Values_Encode v =
     fold (\<lambda>k buf. fold (Encode_pair (QueryEscape k)) (Values_lookup v k) buf)
       (sort (map fst v)) []"

record Userinfo =
  username :: string
  password :: string
  passwordSet :: bool

definition Userinfo_String :: "Userinfo \<Rightarrow> string" where
  "Userinfo_String ui =
     (let s = escape (username ui) encodeUserPassword
      in if passwordSet ui then s @ '':'' @ escape (password ui) encodeUserPassword else s)"

text \<open>
  A parsed URL, \<open>scheme:opaque?query#fragment\<close> or
  \<open>scheme://userinfo@host/path?query#fragment\<close>. The field \<open>RawPath\<close> of the library
  is an optional hint that \<open>String\<close> honours only when it decodes to \<open>Path\<close>;
  \<open>URL()\<close> replaces \<open>Path\<close> by a strictly longer string than the one \<open>Parse\<close>
  decoded, so the hint never applies to the URL rendered here and the path is written in
  its default encoding.
\<close>

record URL =
  Scheme :: string
  Opaque :: string
  User :: "Userinfo option"
  Host :: string
  Path :: string
  ForceQuery :: bool
  RawQuery :: string
  Fragment :: string

definition EscapedPath :: "URL \<Rightarrow> string" where
  "EscapedPath u = (if Path u = ''*'' then ''*'' else escape (Path u) encodePath)"

text \<open>
  \<open>String()\<close> writes into a buffer: the scheme and a colon; then either the opaque part,
  or the authority (\<open>write_authority\<close>: two slashes, the user information and the
  escaped host) followed by the path (\<open>write_path\<close>: a slash when a host is followed
  by a relative path, \<open>./\<close> when nothing was written yet and the first segment has a
  colon, then the escaped path); then the query after a question mark and the fragment
  after a hash.
\<close>

definition write_authority :: "URL \<Rightarrow> string \<Rightarrow> string" where
  "write_authority u buf =
     (if Scheme u \<noteq> [] \<or> Host u \<noteq> [] \<or> User u \<noteq> None then
        (let buf = (if Host u \<noteq> [] \<or> Path u \<noteq> [] \<or> User u \<noteq> None then buf @ ''//'' else buf);
             buf = (case User u of
                      Some ui \<Rightarrow> buf @ Userinfo_String ui @ ''@''
                    | None \<Rightarrow> buf);
             buf = (if Host u \<noteq> [] then buf @ escape (Host u) encodeHost else buf)
         in buf)
      else buf)"

definition write_path :: "URL \<Rightarrow> string \<Rightarrow> string" where
  "write_path u buf =
     (let path = EscapedPath u;
          buf = (if path \<noteq> [] \<and> hd path \<noteq> CHR ''/'' \<and> Host u \<noteq> [] then buf @ ''/'' else buf);
          buf = (if buf = [] \<and> CHR '':'' \<in> set (takeWhile (\<lambda>c. c \<noteq> CHR ''/'') path)
                 then buf @ ''./'' else buf)
      in buf @ path)"

definition URL_String :: "URL \<Rightarrow> string" where
  "URL_String u =
     (let buf = [];
          buf = (if Scheme u \<noteq> [] then buf @ Scheme u @ '':'' else buf);
          buf = (if Opaque u \<noteq> [] then buf @ Opaque u else write_path u (write_authority u buf));
          buf = (if ForceQuery u \<or> RawQuery u \<noteq> [] then buf @ ''?'' @ RawQuery u else buf);
          buf = (if Fragment u \<noteq> [] then buf @ ''#'' @ escape (Fragment u) encodeFragment else buf)
      in buf)"

text \<open>\<open>strconv.FormatInt(i, 10)\<close>: the decimal digits, after a minus sign when negative.\<close>

definition digit_char :: "nat \<Rightarrow> char" where
  "digit_char n = ''0123456789'' ! n"

function decimal :: "nat \<Rightarrow> string" where
  "decimal n = (if n < 10 then [digit_char n] else decimal (n div 10) @ [digit_char (n mod 10)])"
  by pat_completeness auto
termination
  by (relation "measure id") auto

declare decimal.simps [simp del]

definition FormatInt :: "int64 \<Rightarrow> string" where
  "FormatInt i = (if sint i < 0 then ''-'' @ decimal (nat (- sint i)) else decimal (nat (sint i)))"

text \<open>
  \<open>strconv.Atoi\<close> for a 64-bit \<open>int\<close>: an optional sign, then one or more decimal
  digits; anything else is a syntax error, a value outside the \<open>int\<close> range a range
  error. The error carries the kind only.
\<close>

definition isDigit :: "char \<Rightarrow> bool" where
  "isDigit c = (c \<in> set ''0123456789'')"

definition digit_val :: "char \<Rightarrow> nat" where
  "digit_val c = of_char c - 48"

definition digits_val :: "string \<Rightarrow> nat" where
  "digits_val ds = foldl (\<lambda>n c. 10 * n + digit_val c) 0 ds"

definition Atoi :: "string \<Rightarrow> error + int" where
  "Atoi s =
     (let (neg, ds) =
            (case s of
               [] \<Rightarrow> (False, s)
             | c # r \<Rightarrow> if c = CHR ''+'' then (False, r) else if c = CHR ''-'' then (True, r) else (False, s))
      in if ds = [] \<or> \<not> list_all isDigit ds
           then Inl ''invalid syntax''
         else
           (let un = digits_val ds
            in if \<not> neg \<and> 2 ^ 63 \<le> un then Inl ''value out of range''
               else if neg \<and> 2 ^ 63 < un then Inl ''value out of range''
               else Inr (if neg then - int un else int un)))"

section \<open>The fragment of \<open>net/http\<close> that \<open>Get\<close> sees\<close>

text \<open>
  \<open>http.Header\<close> is a \<open>map[string][]string\<close> keyed by canonical header names;
  \<open>Header.Get\<close> canonicalises the name it is asked for (first letter and every letter
  after a hyphen in upper case, the others in lower case) and returns the first value, or
  the empty string when there is none.
\<close>

type_synonym Header = "string \<rightharpoonup> string list"

definition validHeaderFieldByte :: "char \<Rightarrow> bool" where
  "validHeaderFieldByte c = (isAlnum c \<or> c \<in> set ''!#$%&*+-.^_`|~'' \<or> c = CHR 0x27)"

definition toUpper :: "char \<Rightarrow> char" where
  "toUpper c =
     (case map_of (zip ''abcdefghijklmnopqrstuvwxyz'' ''ABCDEFGHIJKLMNOPQRSTUVWXYZ'') c of
        Some d \<Rightarrow> d | None \<Rightarrow> c)"

definition toLower :: "char \<Rightarrow> char" where
  "toLower c =
     (case map_of (zip ''ABCDEFGHIJKLMNOPQRSTUVWXYZ'' ''abcdefghijklmnopqrstuvwxyz'') c of
        Some d \<Rightarrow> d | None \<Rightarrow> c)"

fun canonicalMIMEHeaderKey :: "bool \<Rightarrow> string \<Rightarrow> string" where
  "canonicalMIMEHeaderKey upper [] = []"
| "canonicalMIMEHeaderKey upper (c # cs) =
     (if upper then toUpper c else toLower c) # canonicalMIMEHeaderKey (c = CHR ''-'') cs"

definition CanonicalMIMEHeaderKey :: "string \<Rightarrow> string" where
  "CanonicalMIMEHeaderKey s =
     (if list_all validHeaderFieldByte s then canonicalMIMEHeaderKey True s else s)"

definition Header_Get :: "Header \<Rightarrow> string \<Rightarrow> string" where
  "Header_Get h key =
     (case h (CanonicalMIMEHeaderKey key) of
        None \<Rightarrow> []
      | Some vs \<Rightarrow> (case vs of [] \<Rightarrow> [] | v # _ \<Rightarrow> v))"

text \<open>
  What \<open>Get\<close> reads of an \<open>http.Response\<close>: the status code, the headers, and the
  outcome of \<open>ioutil.ReadAll(res.Body)\<close>, which is the body or a read error.
\<close>

record Response =
  StatusCode :: int
  Header :: Header
  Body :: "error + string"

section \<open>The request builder\<close>

type_synonym Units = string
type_synonym Lang = string

definition US :: Units where "US = ''us''"
definition UK :: Units where "UK = ''uk''"
definition UK2 :: Units where "UK2 = ''uk2''"
definition AUTO :: Units where "AUTO = ''auto''"

definition Arabic :: Lang where "Arabic = ''ar''"
definition Bosnian :: Lang where "Bosnian = ''bs''"
definition German :: Lang where "German = ''de''"
definition Greek :: Lang where "Greek = ''el''"
definition English :: Lang where "English = ''en''"
definition Croatian :: Lang where "Croatian = ''hr''"
definition Italian :: Lang where "Italian = ''it''"
definition Dutch :: Lang where "Dutch = ''nl''"
definition Polish :: Lang where "Polish = ''pl''"
definition Portuguese :: Lang where "Portuguese = ''pt''"
definition Russian :: Lang where "Russian = ''ru''"
definition Slovak :: Lang where "Slovak = ''sk''"
definition Swedish :: Lang where "Swedish = ''sv''"
definition Tetum :: Lang where "Tetum = ''tet''"
definition Turkish :: Lang where "Turkish = ''tr''"
definition Ukranian :: Lang where "Ukranian = ''uk''"
definition PigLatin :: Lang where "PigLatin = ''x-pig-latin''"
definition Chinese :: Lang where "Chinese = ''zh''"
definition TraditionalChinese :: Lang where "TraditionalChinese = ''zh-tw''"

definition APICallsHeader :: string where
  "APICallsHeader = ''X-Forecast-API-Calls''"

record ForecastRequest =
  Key :: string
  Lat :: float64
  Lng :: float64
  Time :: int64
  Lang :: Lang
  Units :: Units
  ExtendHourly :: bool
  Exclude :: "string list"
  baseURL :: string

record ForecastResponse =
  Forecast :: Forecast
  APICallCount :: int
  Error :: "error option"

text \<open>
  What the program takes from outside the repository, as parameters: the URL parser, the
  query parser on a non-empty query, the \<open>%v\<close> formatting of a \<open>float64\<close>, the HTTP
  round trip, and the JSON decoder, which writes into the value it is given and may
  return an error after having written part of it.
\<close>

record env =
  url_Parse :: "string \<Rightarrow> error + URL"
  url_ParseQuery :: "string \<Rightarrow> Values"
  fmt_float64 :: "float64 \<Rightarrow> string"
  http_Get :: "string \<Rightarrow> error + Response"
  json_Unmarshal :: "string \<Rightarrow> Forecast \<Rightarrow> Forecast \<times> error option"

definition MakeRequest :: "string \<Rightarrow> float64 \<Rightarrow> float64 \<Rightarrow> ForecastRequest" where
  "MakeRequest key latitude longitude =
     \<lparr>Key = key, Lat = latitude, Lng = longitude, Time = - 1, Lang = English, Units = US,
      ExtendHourly = False, Exclude = [], baseURL = ''https://api.darksky.net/forecast''\<rparr>"





text \<open>\<open>reqURL.Query()\<close>: the empty query has no values; a non-empty one is parsed.\<close>

definition URL_Query :: "env \<Rightarrow> URL \<Rightarrow> Values" where
  "URL_Query env u = (if RawQuery u = [] then [] else url_ParseQuery env (RawQuery u))"

text \<open>
  \<open>URL()\<close> in two steps: \<open>requestURL\<close> is the value of \<open>reqURL\<close> at the return
  statement (or the parse error), and \<open>URL\<close> renders it with \<open>String()\<close>.
\<close>

definition requestURL :: "env \<Rightarrow> ForecastRequest \<Rightarrow> error + URL" where
  "requestURL env f =
     (case url_Parse env (baseURL f) of
        Inl err \<Rightarrow> Inl err
      | Inr reqURL \<Rightarrow>
          (let v = URL_Query env reqURL;
               v = Values_Add v ''lang'' (Lang f);
               v = Values_Add v ''units'' (Units f);
               reqURL = reqURL\<lparr>Path := Path reqURL @ ''/'' @ Key f @ ''/'' @
                          fmt_float64 env (Lat f) @ '','' @ fmt_float64 env (Lng f)\<rparr>;
               reqURL = (if 0 <s Time f
                         then reqURL\<lparr>Path := Path reqURL @ '','' @ FormatInt (Time f)\<rparr>
                         else reqURL);
               reqURL = reqURL\<lparr>RawQuery := Values_Encode v\<rparr>
           in Inr reqURL))"

definition URL :: "env \<Rightarrow> ForecastRequest \<Rightarrow> error + string" where
  "URL env f =
     (case requestURL env f of
        Inl err \<Rightarrow> Inl err
      | Inr reqURL \<Rightarrow> Inr (URL_String reqURL))"

definition fromJSON :: "env \<Rightarrow> string \<Rightarrow> error + Forecast" where
  "fromJSON env jsonBlob =
     (case json_Unmarshal env jsonBlob zero_Forecast of
        (f, Some err) \<Rightarrow> Inl err
      | (f, None) \<Rightarrow> Inr f)"

definition Get :: "env \<Rightarrow> ForecastRequest \<Rightarrow> ForecastResponse" where
  "Get env f =
     (let forecastResponse = \<lparr>Forecast = zero_Forecast, APICallCount = 0, Error = None\<rparr>
      in case URL env f of
           Inl err \<Rightarrow> forecastResponse\<lparr>Error := Some err\<rparr>
         | Inr reqURL \<Rightarrow>
             (case http_Get env reqURL of
                Inl err \<Rightarrow> forecastResponse\<lparr>Error := Some err\<rparr>
              | Inr res \<Rightarrow>
                  (case Body res of
                     Inl err \<Rightarrow> forecastResponse\<lparr>Error := Some err\<rparr>
                   | Inr body \<Rightarrow>
                       if 400 \<le> StatusCode res then forecastResponse\<lparr>Error := Some body\<rparr>
                       else
                         (let forecastResponse =
                                (case Atoi (Header_Get (Header res) APICallsHeader) of
                                   Inr callCount \<Rightarrow> forecastResponse\<lparr>APICallCount := callCount\<rparr>
                                 | Inl err \<Rightarrow> forecastResponse)
                          in case fromJSON env body of
                               Inl err \<Rightarrow> forecastResponse\<lparr>Error := Some err\<rparr>
                             | Inr forecast \<Rightarrow> forecastResponse\<lparr>Forecast := forecast\<rparr>))))"

section \<open>A concrete environment\<close>

text \<open>
  The theorems below hold for every environment. Where one is evaluated at a concrete
  request, the environment is this one. Its parser follows the steps of \<open>url.Parse\<close>
  that the base URLs used here reach: it splits off the scheme as \<open>getscheme\<close> does
  (rejecting a string that starts with a colon), then the query after the first \<open>?\<close>;
  a remainder that does not start with a slash is opaque when there is a scheme; after
  \<open>//\<close> the authority runs to the next slash and the rest is the path. It leaves out
  fragments, user information, percent-decoding and the checks of the host, none of which
  these base URLs have. Its query parser splits at \<open>&\<close> and at the first \<open>=\<close> of
  each piece, as \<open>url.ParseQuery\<close> does on keys and values made of letters and digits.
  Its number format writes an integral \<open>float64\<close> of magnitude below \<open>10\<^sup>6\<close> as
  \<open>%v\<close> does: the decimal digits of the integer.
\<close>

definition isAlpha :: "char \<Rightarrow> bool" where
  "isAlpha c = (c \<in> set ''abcdefghijklmnopqrstuvwxyzABCDEFGHIJKLMNOPQRSTUVWXYZ'')"

fun getscheme_from :: "string \<Rightarrow> string \<Rightarrow> string \<Rightarrow> error + string \<times> string" where
  "getscheme_from rawurl seen [] = Inr ([], rawurl)"
| "getscheme_from rawurl seen (c # cs) =
     (if isAlpha c then getscheme_from rawurl (seen @ [c]) cs
      else if isDigit c \<or> c = CHR ''+'' \<or> c = CHR ''-'' \<or> c = CHR ''.'' then
        (if seen = [] then Inr ([], rawurl) else getscheme_from rawurl (seen @ [c]) cs)
      else if c = CHR '':'' then
        (if seen = [] then Inl ''missing protocol scheme'' else Inr (seen, cs))
      else Inr ([], rawurl))"

definition getscheme :: "string \<Rightarrow> error + string \<times> string" where
  "getscheme rawurl = getscheme_from rawurl [] rawurl"

definition cut_at :: "char \<Rightarrow> string \<Rightarrow> string \<times> string" where
  "cut_at sep s = (takeWhile (\<lambda>c. c \<noteq> sep) s, drop 1 (dropWhile (\<lambda>c. c \<noteq> sep) s))"

definition plain_Parse :: "string \<Rightarrow> error + URL" where
  "plain_Parse rawurl =
     (case getscheme rawurl of
        Inl err \<Rightarrow> Inl err
      | Inr (scheme, rest) \<Rightarrow>
          (let url = \<lparr>Scheme = map toLower scheme, Opaque = [], User = None, Host = [], Path = [],
                      ForceQuery = False, RawQuery = snd (cut_at (CHR ''?'') rest), Fragment = []\<rparr>;
               rest = fst (cut_at (CHR ''?'') rest)
           in if take 1 rest \<noteq> ''/'' \<and> scheme \<noteq> [] then Inr (url\<lparr>Opaque := rest\<rparr>)
              else if take 1 rest \<noteq> ''/'' \<and> CHR '':'' \<in> set (fst (cut_at (CHR ''/'') rest))
                then Inl ''first path segment in URL cannot contain colon''
              else if take 2 rest = ''//''
                then Inr (url\<lparr>Host := takeWhile (\<lambda>c. c \<noteq> CHR ''/'') (drop 2 rest),
                              Path := dropWhile (\<lambda>c. c \<noteq> CHR ''/'') (drop 2 rest)\<rparr>)
              else Inr (url\<lparr>Path := rest\<rparr>)))"

function plain_ParseQuery_into :: "Values \<Rightarrow> string \<Rightarrow> Values" where
  "plain_ParseQuery_into m query =
     (if query = [] then m
      else
        (let kv = fst (cut_at (CHR ''&'') query);
             m = (if kv = [] then m
                  else Values_Add m (fst (cut_at (CHR ''='') kv)) (snd (cut_at (CHR ''='') kv)))
         in plain_ParseQuery_into m (snd (cut_at (CHR ''&'') query))))"
  by pat_completeness auto
termination
proof (relation "measure (\<lambda>(m, query). length query)")
  show "wf (measure (\<lambda>(m, query). length query))"
    by simp
next
  fix m kv m' :: Values and query :: string
  assume "query \<noteq> []"
  then have "length (drop 1 (dropWhile (\<lambda>c. c \<noteq> CHR ''&'') query)) < length query"
    using length_dropWhile_le [of "\<lambda>c. c \<noteq> CHR ''&''" query] by (cases query) auto
  then show "((m', snd (cut_at (CHR ''&'') query)), (m, query)) \<in> measure (\<lambda>(m, query). length query)"
    by (simp add: cut_at_def)
qed

declare plain_ParseQuery_into.simps [simp del]

definition plain_ParseQuery :: "string \<Rightarrow> Values" where
  "plain_ParseQuery query = plain_ParseQuery_into [] query"

definition plain_fmt :: "float64 \<Rightarrow> string" where
  "plain_fmt x =
     (case x of
        Finite r \<Rightarrow> (if r < 0 then ''-'' else []) @ decimal (nat \<lfloor>\<bar>r\<bar>\<rfloor>)
      | PosInf \<Rightarrow> ''+Inf''
      | NegInf \<Rightarrow> ''-Inf''
      | NaN \<Rightarrow> ''NaN'')"

definition plain_env ::
  "(string \<Rightarrow> error + Response) \<Rightarrow> (string \<Rightarrow> Forecast \<Rightarrow> Forecast \<times> error option) \<Rightarrow> env" where
  "plain_env get unmarshal =
     \<lparr>url_Parse = plain_Parse, url_ParseQuery = plain_ParseQuery, fmt_float64 = plain_fmt,
      http_Get = get, json_Unmarshal = unmarshal\<rparr>"

text \<open>
  Requests and server answers used as concrete inputs: the handlers of the test suite (a
  500 answer whose body is a message, a 200 answer that carries the call-count header)
  and a decoder that accepts \<open>{}\<close>, and on \<open>bad_body\<close> fills in the time zone before
  it fails at the offset.
\<close>

definition bad_body :: string where
  \<open>bad_body = ''{"timezone":"UTC","offset":"x"}''\<close>

definition plain_Unmarshal :: "string \<Rightarrow> Forecast \<Rightarrow> Forecast \<times> error option" where
  "plain_Unmarshal blob f =
     (if blob = ''{}'' then (f, None)
      else if blob = bad_body
        then (f\<lparr>Timezone := ''UTC''\<rparr>,
              Some ''json: cannot unmarshal string into Go struct field Forecast.offset of type int'')
      else (f, Some ''unexpected end of JSON input''))"

definition errorForecastHandler :: Response where
  "errorForecastHandler =
     \<lparr>StatusCode = 500, Header = Map.empty, Body = Inr ''A Server Error Occurred.''\<rparr>"

definition countingHandler :: "string \<Rightarrow> Response" where
  "countingHandler body =
     \<lparr>StatusCode = 200, Header = [''X-Forecast-Api-Calls'' \<mapsto> [''1'']], Body = Inr body\<rparr>"

definition chicago :: ForecastRequest where
  "chicago = MakeRequest ''test_key'' (Finite 41) (Finite (- 87))"

definition server_env :: "Response \<Rightarrow> env" where
  "server_env res = plain_env (\<lambda>reqURL. Inr res) plain_Unmarshal"




section \<open>Escaping and rendering lemmas\<close>


lemma escape_Nil: "escape [] m = []"
  by (simp add: escape_def)

lemma escape_Cons: "escape (c # s) m = escape_byte m c @ escape s m"
  by (simp add: escape_def)



lemma escape_byte_slash: "escape_byte encodePath (CHR ''/'') = ''/''"
  by (simp add: escape_byte_def shouldEscape_def isAlnum_def)

lemma escape_byte_comma: "escape_byte encodePath (CHR '','') = '',''"
  by (simp add: escape_byte_def shouldEscape_def isAlnum_def)

lemma escape_slash: "escape ''/'' encodePath = ''/''"
  by (simp add: escape_Cons escape_Nil escape_byte_slash)

lemma escape_comma: "escape '','' encodePath = '',''"
  by (simp add: escape_Cons escape_Nil escape_byte_comma)









































section \<open>Evaluation at the concrete inputs\<close>


lemma server_env_sel:
  "http_Get (server_env res) reqURL = Inr res"
  "json_Unmarshal (server_env res) = plain_Unmarshal"
  by (simp_all add: server_env_def plain_env_def)

lemma CanonicalMIMEHeaderKey_APICallsHeader:
  "CanonicalMIMEHeaderKey APICallsHeader = ''X-Forecast-Api-Calls''"
  by (simp add: CanonicalMIMEHeaderKey_def APICallsHeader_def validHeaderFieldByte_def
      isAlnum_def toUpper_def toLower_def)


lemma Atoi_1: "Atoi ''1'' = Inr 1"
  by (simp add: Atoi_def isDigit_def digits_val_def digit_val_def)

lemma URL_chicago:
  "URL (plain_env g j) chicago =
     Inr ''https://api.darksky.net/forecast/test_key/41,-87?lang=en&units=us''"
  by code_simp

lemma URL_server_env_chicago:
  "URL (server_env res) chicago =
     Inr ''https://api.darksky.net/forecast/test_key/41,-87?lang=en&units=us''"
  by (simp add: server_env_def URL_chicago)

lemma plain_Unmarshal_bad_body:
  "plain_Unmarshal bad_body zero_Forecast =
     (zero_Forecast\<lparr>Timezone := ''UTC''\<rparr>,
      Some ''json: cannot unmarshal string into Go struct field Forecast.offset of type int'')"
  by (simp add: plain_Unmarshal_def bad_body_def)

lemma plain_Unmarshal_empty_object: "plain_Unmarshal ''{}'' zero_Forecast = (zero_Forecast, None)"
  by (simp add: plain_Unmarshal_def)

lemma countingHandler_sel:
  "StatusCode (countingHandler body) = 200"
  "Body (countingHandler body) = Inr body"
  "Header (countingHandler body) ''X-Forecast-Api-Calls'' = Some [''1'']"
  by (simp_all add: countingHandler_def)

lemma Header_Get_countingHandler:
  "Header_Get (Header (countingHandler body)) APICallsHeader = ''1''"
  by (simp add: Header_Get_def CanonicalMIMEHeaderKey_APICallsHeader countingHandler_def)

lemma Get_errorForecastHandler:
  "Get (server_env errorForecastHandler) chicago =
     \<lparr>Forecast = zero_Forecast, APICallCount = 0, Error = Some ''A Server Error Occurred.''\<rparr>"
  by (simp add: Get_def URL_server_env_chicago server_env_sel errorForecastHandler_def)

lemma Get_countingHandler_bad_body:
  "Get (server_env (countingHandler bad_body)) chicago =
     \<lparr>Forecast = zero_Forecast, APICallCount = 1,
      Error = Some ''json: cannot unmarshal string into Go struct field Forecast.offset of type int''\<rparr>"
  by (simp add: Get_def URL_server_env_chicago server_env_sel Header_Get_countingHandler Atoi_1
      fromJSON_def plain_Unmarshal_bad_body countingHandler_sel)

lemma Get_countingHandler_ok:
  "Get (server_env (countingHandler ''{}'')) chicago =
     \<lparr>Forecast = zero_Forecast, APICallCount = 1, Error = None\<rparr>"
  by (simp add: Get_def URL_server_env_chicago server_env_sel Header_Get_countingHandler Atoi_1
      fromJSON_def plain_Unmarshal_empty_object countingHandler_sel)




















section \<open>Wind direction\<close>

text \<open>
  C1. For every data point and every bearing, \<open>WindDirection\<close> is the concatenation, in
  the order N, S, E, W, of the letters whose test holds: N when the bearing is above 293
  or below 67, S when it is strictly between 113 and 247, E strictly between 22 and 157,
  W strictly between 203 and 337. The four tests are independent and strict: the fixture
  bearings 147, 0 and 336 give SE, N and NW, and at each of the thresholds 22, 67, 113,
  157, 203, 247, 293, 337 the test bounded by it does not fire, so that only the letter
  of the neighbouring test is returned. NaN fails every test; both infinities give N.
\<close>

theorem WindDirection_letters:
  "WindDirection (dp\<lparr>WindBearing := Finite b\<rparr>) =
      (if 293 < b \<or> b < 67 then ''N'' else []) @
      (if 113 < b \<and> b < 247 then ''S'' else []) @
      (if 22 < b \<and> b < 157 then ''E'' else []) @
      (if 203 < b \<and> b < 337 then ''W'' else [])
   \<and> WindDirection (dp\<lparr>WindBearing := NaN\<rparr>) = []
   \<and> WindDirection (dp\<lparr>WindBearing := PosInf\<rparr>) = ''N''
   \<and> WindDirection (dp\<lparr>WindBearing := NegInf\<rparr>) = ''N''
   \<and> WindDirection (dp\<lparr>WindBearing := Finite 147\<rparr>) = ''SE''
   \<and> WindDirection (dp\<lparr>WindBearing := Finite 0\<rparr>) = ''N''
   \<and> WindDirection (dp\<lparr>WindBearing := Finite 336\<rparr>) = ''NW''
   \<and> WindDirection (dp\<lparr>WindBearing := Finite 22\<rparr>) = ''N''
   \<and> WindDirection (dp\<lparr>WindBearing := Finite 67\<rparr>) = ''E''
   \<and> WindDirection (dp\<lparr>WindBearing := Finite 113\<rparr>) = ''E''
   \<and> WindDirection (dp\<lparr>WindBearing := Finite 157\<rparr>) = ''S''
   \<and> WindDirection (dp\<lparr>WindBearing := Finite 203\<rparr>) = ''S''
   \<and> WindDirection (dp\<lparr>WindBearing := Finite 247\<rparr>) = ''W''
   \<and> WindDirection (dp\<lparr>WindBearing := Finite 293\<rparr>) = ''W''
   \<and> WindDirection (dp\<lparr>WindBearing := Finite 337\<rparr>) = ''N''"
  by (simp add: WindDirection_def float64_greater_def)

text \<open>
  C9. For every bearing in the closed interval from 0 to 360, \<open>WindDirection\<close> returns
  one of the eight compass labels N, NE, E, SE, S, SW, W, NW: never the empty string,
  never N together with S, never E together with W.
\<close>

theorem WindDirection_compass:
  assumes "0 \<le> b" and "b \<le> 360"
  shows "WindDirection (dp\<lparr>WindBearing := Finite b\<rparr>)
           \<in> {''N'', ''NE'', ''E'', ''SE'', ''S'', ''SW'', ''W'', ''NW''}"
  using assms by (auto simp add: WindDirection_def float64_greater_def Let_def)

theorem WindDirection_compass_witness:
  "(0::real) \<le> 225 \<and> (225::real) \<le> 360
   \<and> WindDirection (zero_DataPoint\<lparr>WindBearing := Finite 225\<rparr>) = ''SW''
   \<and> WindDirection (zero_DataPoint\<lparr>WindBearing := Finite 225\<rparr>)
        \<in> {''N'', ''NE'', ''E'', ''SE'', ''S'', ''SW'', ''W'', ''NW''}"
  using WindDirection_compass [of 225 zero_DataPoint]
  by (simp add: WindDirection_def float64_greater_def)

section \<open>The request URL\<close>












section \<open>Executing a request\<close>

text \<open>
  C5. Whenever the response returned by \<open>Get\<close> carries an error, its forecast is the
  zero value: every failure branch returns the response built at the start with only the
  error (and possibly the call count) set, and what the decoder had written before it
  failed is dropped. The error is absent exactly when the URL was built, the request was
  sent, the body was read, the status is below 400 and the body decoded; each of the five
  failures (URL construction, transport, reading the body, a status of 400 or more,
  decoding) sets it. \<open>Get\<close> is a total function: the failure is a field of the value
  it returns.
\<close>

theorem Get_error_zero_forecast:
  "(Error (Get env f) \<noteq> None \<longrightarrow> Forecast (Get env f) = zero_Forecast)
   \<and> (Error (Get env f) = None) =
       (\<exists>reqURL res body forecast.
          URL env f = Inr reqURL \<and> http_Get env reqURL = Inr res \<and> Body res = Inr body \<and>
          StatusCode res < 400 \<and> fromJSON env body = Inr forecast)"
  by (auto simp: Get_def Let_def split: sum.splits if_splits)

theorem Get_error_zero_forecast_witness:
  "Error (Get (server_env (countingHandler bad_body)) chicago) \<noteq> None
   \<and> Timezone (fst (json_Unmarshal (server_env (countingHandler bad_body)) bad_body zero_Forecast)) = ''UTC''
   \<and> Timezone zero_Forecast = []
   \<and> Forecast (Get (server_env (countingHandler bad_body)) chicago) = zero_Forecast"
proof -
  have err: "Error (Get (server_env (countingHandler bad_body)) chicago) \<noteq> None"
    by (simp add: Get_countingHandler_bad_body)
  have partial: "Timezone (fst (json_Unmarshal (server_env (countingHandler bad_body)) bad_body
      zero_Forecast)) = ''UTC''"
    by (simp add: server_env_sel plain_Unmarshal_bad_body)
  have zero: "Timezone zero_Forecast = []"
    by (simp add: zero_Forecast_def)
  show ?thesis
    using Get_error_zero_forecast [of "server_env (countingHandler bad_body)" chicago]
      err partial zero
    by simp
qed





text \<open>
  C10. When the status is below 400, the call-count header parses to \<open>n\<close> and the body
  fails to decode, the response carries the decode error together with the call count
  \<open>n\<close>: the count is stored before decoding and stays on the error path, so a response
  with an error need not have a zero call count.
\<close>

theorem Get_decode_error_keeps_count:
  assumes "URL env f = Inr reqURL" and "http_Get env reqURL = Inr res"
    and "Body res = Inr body" and "StatusCode res < 400"
    and "Atoi (Header_Get (Header res) APICallsHeader) = Inr n"
    and "fromJSON env body = Inl err"
  shows "Get env f = \<lparr>Forecast = zero_Forecast, APICallCount = n, Error = Some err\<rparr>"
  using assms by (simp add: Get_def)

theorem Get_decode_error_keeps_count_witness:
  "URL (server_env (countingHandler bad_body)) chicago =
     Inr ''https://api.darksky.net/forecast/test_key/41,-87?lang=en&units=us''
   \<and> http_Get (server_env (countingHandler bad_body))
        ''https://api.darksky.net/forecast/test_key/41,-87?lang=en&units=us'' = Inr (countingHandler bad_body)
   \<and> Body (countingHandler bad_body) = Inr bad_body
   \<and> StatusCode (countingHandler bad_body) < 400
   \<and> Atoi (Header_Get (Header (countingHandler bad_body)) APICallsHeader) = Inr 1
   \<and> fromJSON (server_env (countingHandler bad_body)) bad_body =
       Inl ''json: cannot unmarshal string into Go struct field Forecast.offset of type int''
   \<and> Get (server_env (countingHandler bad_body)) chicago =
       \<lparr>Forecast = zero_Forecast, APICallCount = 1,
        Error = Some ''json: cannot unmarshal string into Go struct field Forecast.offset of type int''\<rparr>"
proof -
  note url = URL_server_env_chicago [of "countingHandler bad_body"]
  note get = server_env_sel(1)
    [of "countingHandler bad_body" "''https://api.darksky.net/forecast/test_key/41,-87?lang=en&units=us''"]
  have body: "Body (countingHandler bad_body) = Inr bad_body"
    by (simp add: countingHandler_sel)
  have status: "StatusCode (countingHandler bad_body) < 400"
    by (simp add: countingHandler_sel)
  have count: "Atoi (Header_Get (Header (countingHandler bad_body)) APICallsHeader) = Inr 1"
    by (simp add: Header_Get_countingHandler Atoi_1)
  have dec: "fromJSON (server_env (countingHandler bad_body)) bad_body =
      Inl ''json: cannot unmarshal string into Go struct field Forecast.offset of type int''"
    by (simp add: fromJSON_def server_env_sel plain_Unmarshal_bad_body)
  show ?thesis
    using Get_decode_error_keeps_count [OF url get body status count dec] url get body status count dec
    by simp
qed

end
